theory Spec2Isabelle
  imports Main "HOL-Library.AList"
begin

section \<open>JavaScript values and errors\<close>

text \<open>
  Payloads and configuration entries are JavaScript values. Numbers are restricted to
  the integers and \<open>NaN\<close>; fractional numbers do not occur in what follows.
\<close>

datatype jsval =
    JUndefined
  | JNull
  | JBool bool
  | JNum int
  | JNaN
  | JStr string
  | JArr "jsval list"
  | JObj "(string \<times> jsval) list"

text \<open>Truthiness, as \<open>if (v)\<close>, \<open>!v\<close> and \<open>v || w\<close> read it.\<close>

fun truthy :: "jsval \<Rightarrow> bool" where
  "truthy JUndefined = False"
| "truthy JNull = False"
| "truthy (JBool b) = b"
| "truthy (JNum n) = (n \<noteq> 0)"
| "truthy JNaN = False"
| "truthy (JStr s) = (s \<noteq> [])"
| "truthy (JArr xs) = True"
| "truthy (JObj kvs) = True"

definition js_or :: "jsval \<Rightarrow> jsval \<Rightarrow> jsval" where
  "js_or a b = (if truthy a then a else b)"

text \<open>
  What a \<open>throw\<close> carries: a \<open>TypeError\<close> of the runtime (a property read on
  \<open>undefined\<close>), an \<open>Error\<close> object with its message, or any other thrown value
  (the example job of the repository throws its payload).
\<close>

datatype error =
    TypeError string
  | JsError string
  | ThrownValue jsval

section \<open>Configuration\<close>

text \<open>
  Modelled from the spec: the declaration of \<open>Config.data\<close> (module \<open>config\<close> of the core
  package) is not among the sources. The spec gives the structure as \<open>jobs?.dir\<close>,
  \<open>jobs?.queues\<close>, \<open>jobs?.options?.{removeOnComplete, attempts, debug}\<close> and \<open>redis\<close>, and
  the reads the code makes agree with it: \<open>Config.data.jobs\<close> may be undefined
  (\<open>Config.data.jobs?.\<close>), so may \<open>jobs.queues\<close> (\<open>queues?.length\<close>) and \<open>jobs.options\<close>
  (\<open>options?.\<close>); an absent entry of \<open>options\<close> reads as \<open>undefined\<close>. The code only
  reads this structure.
\<close>

record job_queue_options =
  removeOnComplete :: jsval
  cfg_attempts :: jsval
  debug :: jsval

record jobs_config =
  dir :: string
  queues :: "string list option"
  options :: "job_queue_options option"

record config_data =
  jobs :: "jobs_config option"
  redis :: jsval

section \<open>Job classes and job instances\<close>

datatype handle_result = Resolves bool | Throws error

text \<open>
  A subclass of \<open>Job\<close>: its name (\<open>job.name\<close>, \<open>this.constructor.name\<close>), the values its
  field initialisers leave in a fresh instance, and its \<open>handle\<close> method, which either
  resolves to a boolean or throws (a rejected promise and a synchronous throw are the
  same to every caller below, all of which \<open>await\<close> it). The two numeric fields hold
  integers.
\<close>

record job_class =
  class_name :: string
  class_queueName :: string
  class_delayInSeconds :: int
  class_attempts :: int
  handle :: "jsval \<Rightarrow> handle_result"

text \<open>The field initialisers of the abstract class \<open>Job\<close> itself.\<close>

definition Job :: "string \<Rightarrow> (jsval \<Rightarrow> handle_result) \<Rightarrow> job_class" where
  "Job n h = \<lparr> class_name = n, class_queueName = ''default'',
               class_delayInSeconds = 0, class_attempts = 5, handle = h \<rparr>"

section \<open>The transport: Bull queues\<close>

record default_job_options =
  default_removeOnComplete :: jsval
  default_attempts :: jsval

text \<open>
  A \<open>Queue\<close> instance: \<open>qid\<close> tells two instances apart (object identity), the rest is
  what the constructor was given.
\<close>

record bull_queue =
  qid :: nat
  qname :: string
  q_redis :: jsval
  defaultJobOptions :: default_job_options

text \<open>\<open>JobOptions\<close> as \<open>getOptions\<close> fills it: an absent key is \<open>None\<close>.\<close>

record job_options =
  opt_delay :: "int option"
  opt_attempts :: "int option"

text \<open>The data of a queued job: \<open>{ job: <class name>, payload }\<close>.\<close>

record envelope =
  job :: string
  payload :: jsval

text \<open>What the consumer is handed: \<open>jobObject.id\<close> and \<open>jobObject.data\<close>.\<close>

record job_object =
  job_id :: nat
  data :: envelope

record job_instance =
  constructor :: job_class
  queueName :: string
  queue :: "bull_queue option"
  delayInSeconds :: int
  attempts :: int

definition new_job :: "job_class \<Rightarrow> job_instance" where
  "new_job c = \<lparr> constructor = c, queueName = class_queueName c, queue = None,
                 delayInSeconds = class_delayInSeconds c, attempts = class_attempts c \<rparr>"

section \<open>The process state and its collaborators\<close>

text \<open>Every call the code makes on a collaborator, in the order made.\<close>

datatype call =
    Readdir string
  | Require string
  | NewQueue bull_queue
  | Process nat nat
  | Add nat envelope job_options
  | Close nat
  | Instantiate string
  | Handle string jsval
  | Done nat "error option"

datatype level = LInfo | LWarn | LError | LDebug | LSuccess

text \<open>
  One constructor per message template of the source; the arguments are the values the
  template interpolates (for \<open>ErrorProcessingJob\<close> the job name and the value read as
  \<open>error.message\<close>). Colours and emoji are left out.
\<close>

datatype message =
    LoadingJobs
  | JobsLoaded "string list"
  | ErrorLoadingJobs error
  | InitializingQueues
  | NoQueuesConfigured
  | QueuesConfigured "string list"
  | ConfigJobs "string list"
  | ReadyToGo
  | ProcessingJob nat string
  | PayloadDump jsval
  | NoHandlerFound string
  | JobCompleted string bool
  | ErrorProcessingJob string jsval
  | JobMessage string string

text \<open>
  The module-level state of \<open>index.ts\<close> (\<open>isInitialized\<close>, \<open>queueMap\<close>), the registry
  \<open>Config.jobs\<close>, the module cache of \<open>require\<close>, and the two traces.
\<close>

record proc =
  isInitialized :: bool
  queueMap :: "(string \<times> bull_queue) list"
  Config_jobs :: "(string \<times> job_class) list"
  module_cache :: "string list"
  next_qid :: nat
  calls :: "call list"
  logs :: "(level \<times> message) list"

text \<open>
  The world around the process: the configuration, the file system as \<open>readdirSync\<close>
  and \<open>require\<close> see it (a module is the list of classes its top level registers), and
  whether the transport rejects a submission.
\<close>

record env =
  Config_data :: config_data
  cwd :: string
  readdirSync :: "string \<Rightarrow> error + string list"
  require :: "string \<Rightarrow> error + job_class list"
  add_rejects :: "bull_queue \<Rightarrow> envelope \<Rightarrow> job_options \<Rightarrow> error option"

definition consola :: "level \<Rightarrow> message \<Rightarrow> proc \<Rightarrow> proc" where
  "consola l m s = s\<lparr> logs := logs s @ [(l, m)] \<rparr>"

definition called :: "call \<Rightarrow> proc \<Rightarrow> proc" where
  "called c s = s\<lparr> calls := calls s @ [c] \<rparr>"

definition proc0 :: proc where
  "proc0 = \<lparr> isInitialized = False, queueMap = [], Config_jobs = [], module_cache = [],
             next_qid = 0, calls = [], logs = [] \<rparr>"

section \<open>Job.ts\<close>

text \<open>\<open>static register(job) { Config.jobs[job.name] = job }\<close>\<close>

definition register :: "job_class \<Rightarrow> proc \<Rightarrow> proc" where
  "register c s = s\<lparr> Config_jobs := AList.update (class_name c) c (Config_jobs s) \<rparr>"

text \<open>\<open>getOptions\<close>: a key is set only when the field is truthy (non-zero).\<close>

definition getOptions :: "job_instance \<Rightarrow> job_options" where
  "getOptions j =
     \<lparr> opt_delay = (if delayInSeconds j \<noteq> 0 then Some (delayInSeconds j * 1000) else None),
       opt_attempts = (if attempts j \<noteq> 0 then Some (attempts j) else None) \<rparr>"

text \<open>\<open>delay(seconds)\<close> sets the field and returns the instance.\<close>

definition delay :: "int \<Rightarrow> job_instance \<Rightarrow> job_instance" where
  "delay seconds j = j\<lparr> delayInSeconds := seconds \<rparr>"

text \<open>\<open>info(message)\<close> with the default \<open>badge = false\<close>.\<close>

definition info :: "job_instance \<Rightarrow> string \<Rightarrow> proc \<Rightarrow> proc" where
  "info j m s = consola LInfo (JobMessage (class_name (constructor j)) m) s"

text \<open>\<open>Config.data.jobs?.options?.debug === true\<close>\<close>

definition debug_on :: "env \<Rightarrow> bool" where
  "debug_on e =
     (case jobs (Config_data e) of
        None \<Rightarrow> False
      | Some jc \<Rightarrow> (case options jc of None \<Rightarrow> False | Some opts \<Rightarrow> debug opts = JBool True))"

section \<open>index.ts: constructing a queue\<close>

text \<open>
  The options object both \<open>configureQueue\<close> and \<open>initQueues\<close> build:
  \<open>removeOnComplete: Config.data.jobs.options?.removeOnComplete\<close> and
  \<open>attempts: Config.data.jobs.options?.attempts || 2\<close>. The read
  \<open>Config.data.jobs.options\<close> has no \<open>?.\<close> after \<open>jobs\<close>: on an undefined \<open>jobs\<close> it
  throws. The two reads \<open>options?.removeOnComplete\<close> and \<open>options?.attempts\<close> are
  named on their own.
\<close>

definition options_removeOnComplete :: "jobs_config \<Rightarrow> jsval" where
  "options_removeOnComplete jc =
     (case options jc of None \<Rightarrow> JUndefined | Some opts \<Rightarrow> removeOnComplete opts)"

definition options_attempts :: "jobs_config \<Rightarrow> jsval" where
  "options_attempts jc =
     (case options jc of None \<Rightarrow> JUndefined | Some opts \<Rightarrow> cfg_attempts opts)"

definition build_defaultJobOptions :: "env \<Rightarrow> error + default_job_options" where
  "build_defaultJobOptions e =
     (case jobs (Config_data e) of
        None \<Rightarrow> Inl (TypeError ''Cannot read properties of undefined (reading options)'')
      | Some jc \<Rightarrow>
          Inr \<lparr> default_removeOnComplete = options_removeOnComplete jc,
                default_attempts = js_or (options_attempts jc) (JNum 2) \<rparr>)"

text \<open>\<open>new Queue(queueName, { redis, defaultJobOptions })\<close>\<close>

definition new_Queue :: "env \<Rightarrow> string \<Rightarrow> default_job_options \<Rightarrow> proc \<Rightarrow> proc \<times> bull_queue" where
  "new_Queue e n d s =
     (let q = \<lparr> qid = next_qid s, qname = n, q_redis = redis (Config_data e),
                 defaultJobOptions = d \<rparr>
      in (called (NewQueue q) (s\<lparr> next_qid := Suc (next_qid s) \<rparr>), q))"

definition configureQueue :: "env \<Rightarrow> string \<Rightarrow> proc \<Rightarrow> proc \<times> (error + bull_queue)" where
  "configureQueue e n s =
     (case build_defaultJobOptions e of
        Inl err \<Rightarrow> (s, Inl err)
      | Inr d \<Rightarrow> (case new_Queue e n d s of (s', q) \<Rightarrow> (s', Inr q)))"

section \<open>Job.ts: dispatch and dispatchNow\<close>

text \<open>
  \<open>dispatch\<close>: the queue from \<open>configureQueue\<close>, the debug line, \<open>await this.queue.add\<close>,
  then \<open>this.queue.close()\<close> and \<open>true\<close>. There is no \<open>try\<close>: a throw of
  \<open>configureQueue\<close> or a rejection of \<open>add\<close> ends the call there. The result is the
  state, the instance (its \<open>queue\<close> field is assigned) and the outcome of the promise.
\<close>

definition dispatch ::
  "env \<Rightarrow> job_instance \<Rightarrow> jsval \<Rightarrow> proc \<Rightarrow> proc \<times> job_instance \<times> (error + bool)" where
  "dispatch e j p s =
     (case configureQueue e (queueName j) s of
        (s1, Inl err) \<Rightarrow> (s1, j, Inl err)
      | (s1, Inr q) \<Rightarrow>
          (let j1 = j\<lparr> queue := Some q \<rparr>;
               s2 = (if debug_on e then info j1 ''Job added to queue'' s1 else s1);
               env1 = \<lparr> job = class_name (constructor j1), payload = p \<rparr>;
               opts = getOptions j1;
               s3 = called (Add (qid q) env1 opts) s2
           in (case add_rejects e q env1 opts of
                 Some err \<Rightarrow> (s3, j1, Inl err)
               | None \<Rightarrow> (called (Close (qid q)) s3, j1, Inr True))))"

text \<open>\<open>dispatchNow\<close>: the debug line, then \<open>return this.handle(payload)\<close>.\<close>

definition dispatchNow ::
  "env \<Rightarrow> job_instance \<Rightarrow> jsval \<Rightarrow> proc \<Rightarrow> proc \<times> (error + bool)" where
  "dispatchNow e j p s =
     (let s1 = (if debug_on e then info j ''Dispatching job synchronously'' s else s);
          s2 = called (Handle (class_name (constructor j)) p) s1
      in (case handle (constructor j) p of
            Resolves b \<Rightarrow> (s2, Inr b)
          | Throws err \<Rightarrow> (s2, Inl err)))"

section \<open>index.ts: loading the job files\<close>

definition endsWith :: "string \<Rightarrow> string \<Rightarrow> bool" where
  "endsWith f suf = (length suf \<le> length f \<and> drop (length f - length suf) f = suf)"

text \<open>
  The \<open>for\<close> loop of \<open>loadJobs\<close>: \<open>require(join(jobsPath, file))\<close> for each file. A module
  already in the cache is not run again; running one performs its top-level
  \<open>Job.register\<close> calls; a throw leaves the loop (the caller catches it).
\<close>

fun require_all :: "env \<Rightarrow> string \<Rightarrow> string list \<Rightarrow> proc \<Rightarrow> proc \<times> error option" where
  "require_all e jobsPath [] s = (s, None)"
| "require_all e jobsPath (file # files) s =
     (let path = jobsPath @ ''/'' @ file;
          s1 = called (Require path) s
      in if path \<in> set (module_cache s1) then require_all e jobsPath files s1
         else (case require e path of
                 Inl err \<Rightarrow> (s1, Some err)
               | Inr cs \<Rightarrow>
                   require_all e jobsPath files
                     (fold register cs (s1\<lparr> module_cache := module_cache s1 @ [path] \<rparr>))))"

text \<open>
  \<open>loadJobs\<close>. The paths \<open>resolve(process.cwd(), dir)\<close> and \<open>join(jobsPath, file)\<close> are
  written with a plain separator; they only name what \<open>readdirSync\<close> and \<open>require\<close> are
  asked for. A throw of either is caught and logged; what they throw is an \<open>Error\<close>
  object of the runtime, so the log line can be built from it.
\<close>

definition loadJobs :: "env \<Rightarrow> proc \<Rightarrow> proc" where
  "loadJobs e s =
     (case jobs (Config_data e) of
        None \<Rightarrow> s
      | Some jc \<Rightarrow>
          (let s1 = consola LInfo LoadingJobs s;
               jobsPath = cwd e @ ''/'' @ dir jc;
               s2 = called (Readdir jobsPath) s1
           in (case readdirSync e jobsPath of
                 Inl err \<Rightarrow> consola LError (ErrorLoadingJobs err) s2
               | Inr found \<Rightarrow>
                   (case require_all e jobsPath
                           (filter (\<lambda>f. endsWith f ''.ts'' \<or> endsWith f ''.js'') found) s2 of
                      (s3, Some err) \<Rightarrow> consola LError (ErrorLoadingJobs err) s3
                    | (s3, None) \<Rightarrow> consola LInfo (JobsLoaded (map fst (Config_jobs s3))) s3))))"

section \<open>index.ts: the queues proxy and initQueues\<close>

text \<open>The \<open>set\<close> trap: only \<open>Queue\<close> instances may be stored.\<close>

datatype assigned = QueueInstance bull_queue | NotAQueue jsval

definition queues_set :: "string \<Rightarrow> assigned \<Rightarrow> proc \<Rightarrow> error + proc" where
  "queues_set prop v s =
     (case v of
        NotAQueue x \<Rightarrow> Inl (JsError ''Can only assign Bull Queue instances'')
      | QueueInstance q \<Rightarrow> Inr (s\<lparr> queueMap := AList.update prop q (queueMap s) \<rparr>))"

text \<open>\<open>Config.data.jobs?.queues\<close>\<close>

definition configured_queues :: "env \<Rightarrow> string list option" where
  "configured_queues e = (case jobs (Config_data e) of None \<Rightarrow> None | Some jc \<Rightarrow> queues jc)"

text \<open>
  The block \<open>if (!isInitialized) { ... }\<close> of \<open>initQueues\<close>. The boolean tells whether the
  block returned \<open>{}\<close> (no queue configured: \<open>!Config.data.jobs?.queues?.length\<close>).
\<close>

definition init_guard :: "env \<Rightarrow> proc \<Rightarrow> proc \<times> bool" where
  "init_guard e s =
     (if \<not> isInitialized s then
        (let s1 = consola LInfo InitializingQueues s
         in (case configured_queues e of
               None \<Rightarrow> ((consola LWarn NoQueuesConfigured s1)\<lparr> isInitialized := True \<rparr>, True)
             | Some [] \<Rightarrow> ((consola LWarn NoQueuesConfigured s1)\<lparr> isInitialized := True \<rparr>, True)
             | Some (n # ns) \<Rightarrow>
                 ((consola LInfo (QueuesConfigured (n # ns)) s1)\<lparr> isInitialized := True \<rparr>, False)))
      else (s, False))"

text \<open>What \<open>initQueues\<close> returns: a fresh \<open>{}\<close> or the proxy \<open>queues\<close> itself.\<close>

datatype init_result = EmptyObject | QueuesProxy

text \<open>
  The \<open>get\<close> trap of the proxy, \<open>initQueues\<close> and its \<open>for\<close> loop call one another:
  the trap calls \<open>initQueues\<close> when \<open>queueMap\<close> has no value, and reads the property
  from what \<open>initQueues\<close> returned, which is the proxy again unless it is \<open>{}\<close>; the loop
  assigns \<open>queues[queueName]\<close> and reads it back through the proxy. The first argument
  bounds the depth of nested \<open>get\<close> calls (the call stack); \<open>None\<close> means the bound was
  reached. A property is a queue name here: the names every object inherits
  (\<open>toString\<close>, \<open>constructor\<close>, ...) are not looked at.
\<close>

function (sequential)
    queues_get :: "nat \<Rightarrow> env \<Rightarrow> string \<Rightarrow> proc \<Rightarrow> (proc \<times> (error + bull_queue option)) option"
  and initQueues :: "nat \<Rightarrow> env \<Rightarrow> proc \<Rightarrow> (proc \<times> (error + init_result)) option"
  and create_queues :: "nat \<Rightarrow> env \<Rightarrow> string list \<Rightarrow> proc \<Rightarrow> (proc \<times> error option) option"
where
  "queues_get 0 e prop s = None"
| "queues_get (Suc n) e prop s =
     (if queueMap s = [] then
        (case initQueues n e s of
           None \<Rightarrow> None
         | Some (s1, Inl err) \<Rightarrow> Some (s1, Inl err)
         | Some (s1, Inr EmptyObject) \<Rightarrow> Some (s1, Inr None)
         | Some (s1, Inr QueuesProxy) \<Rightarrow> queues_get n e prop s1)
      else Some (s, Inr (map_of (queueMap s) prop)))"
| "initQueues n e s =
     (case init_guard e (loadJobs e s) of
        (s1, True) \<Rightarrow> Some (s1, Inr EmptyObject)
      | (s1, False) \<Rightarrow>
          (let s2 = consola LDebug (ConfigJobs (map fst (Config_jobs s1))) s1
           in (case configured_queues e of
                 None \<Rightarrow> Some (consola LSuccess ReadyToGo s2, Inr QueuesProxy)
               | Some names \<Rightarrow>
                   (case create_queues n e names s2 of
                      None \<Rightarrow> None
                    | Some (s3, Some err) \<Rightarrow> Some (s3, Inl err)
                    | Some (s3, None) \<Rightarrow> Some (consola LSuccess ReadyToGo s3, Inr QueuesProxy)))))"
| "create_queues n e [] s = Some (s, None)"
| "create_queues n e (qn # rest) s =
     (case build_defaultJobOptions e of
        Inl err \<Rightarrow> Some (s, Some err)
      | Inr d \<Rightarrow>
          (case new_Queue e qn d s of
             (s1, q) \<Rightarrow>
               (case queues_set qn (QueueInstance q) s1 of
                  Inl err \<Rightarrow> Some (s1, Some err)
                | Inr s2 \<Rightarrow>
                    (case queues_get n e qn s2 of
                       None \<Rightarrow> None
                     | Some (s3, Inl err) \<Rightarrow> Some (s3, Some err)
                     | Some (s3, Inr None) \<Rightarrow>
                         Some (s3, Some (TypeError ''Cannot read properties of undefined (reading process)''))
                     | Some (s3, Inr (Some q1)) \<Rightarrow>
                         create_queues n e rest (called (Process (qid q1) 1) s3)))))"
  by pat_completeness auto
termination
  by (relation "measures
        [\<lambda>x. case x of Inl (n, _) \<Rightarrow> n | Inr (Inl (n, _)) \<Rightarrow> n | Inr (Inr (n, _)) \<Rightarrow> n,
         \<lambda>x. case x of Inl _ \<Rightarrow> 0 | Inr (Inl _) \<Rightarrow> 2 | Inr (Inr _) \<Rightarrow> 1,
         \<lambda>x. case x of Inr (Inr (_, _, names, _)) \<Rightarrow> length names | _ \<Rightarrow> 0]") auto

section \<open>index.ts: the consumer attached to every queue\<close>

text \<open>
  \<open>(error as Error).message\<close>: the property read the \<open>catch\<close> block makes on whatever
  was thrown. On \<open>undefined\<close> and \<open>null\<close> the read itself throws; on an \<open>Error\<close> it is
  the message; on an object it is its \<open>message\<close> entry; on any other value it is
  \<open>undefined\<close>.
\<close>

fun message_of :: "error \<Rightarrow> error + jsval" where
  "message_of (TypeError m) = Inr (JStr m)"
| "message_of (JsError m) = Inr (JStr m)"
| "message_of (ThrownValue JUndefined) =
     Inl (TypeError ''Cannot read properties of undefined (reading message)'')"
| "message_of (ThrownValue JNull) =
     Inl (TypeError ''Cannot read properties of null (reading message)'')"
| "message_of (ThrownValue (JObj kvs)) =
     Inr (case map_of kvs ''message'' of None \<Rightarrow> JUndefined | Some v \<Rightarrow> v)"
| "message_of (ThrownValue v) = Inr JUndefined"

text \<open>
  \<open>Config.jobs[job]\<close>. \<open>Config.jobs\<close> is a plain object: besides the registered classes
  it answers the names every object inherits from \<open>Object.prototype\<close>, with a value that
  is truthy and is not a job class.
\<close>

definition inherited_names :: "string list" where
  "inherited_names =
     [''constructor'', ''__defineGetter__'', ''__defineSetter__'', ''hasOwnProperty'',
      ''__lookupGetter__'', ''__lookupSetter__'', ''isPrototypeOf'', ''propertyIsEnumerable'',
      ''toString'', ''valueOf'', ''__proto__'', ''toLocaleString'']"

datatype registry_value = JobClass job_class | InheritedValue | Undefined

definition Config_jobs_read :: "proc \<Rightarrow> string \<Rightarrow> registry_value" where
  "Config_jobs_read s n =
     (case map_of (Config_jobs s) n of
        Some c \<Rightarrow> JobClass c
      | None \<Rightarrow> (if n \<in> set inherited_names then InheritedValue else Undefined))"

text \<open>
  The \<open>catch\<close> block of the consumer: it builds the log line from \<open>error.message\<close>, logs
  it and calls \<open>done(error)\<close>. When the read of \<open>message\<close> throws, the block ends there:
  nothing is logged, \<open>done\<close> is not called, and the consumer's promise rejects.
\<close>

definition catch_block :: "job_object \<Rightarrow> error \<Rightarrow> proc \<Rightarrow> proc \<times> error option" where
  "catch_block jobObject err s =
     (case message_of err of
        Inl thrown \<Rightarrow> (s, Some thrown)
      | Inr m \<Rightarrow>
          (called (Done (job_id jobObject) (Some err))
             (consola LError (ErrorProcessingJob (job (data jobObject)) m) s),
           None))"

text \<open>
  The function given to \<open>queues[queueName].process(1, ...)\<close>, run on one delivered
  job. \<open>done\<close> is the callback of the transport: \<open>Done id None\<close> is \<open>done()\<close>,
  \<open>Done id (Some err)\<close> is \<open>done(err)\<close>. The second component of the result is the
  error the function's own promise rejects with, if it does. An inherited value is
  truthy, so the \<open>try\<close> block is entered with it, and \<open>new jobHandler().handle(payload)\<close>
  throws a \<open>TypeError\<close> there.
\<close>

definition consumer :: "job_object \<Rightarrow> proc \<Rightarrow> proc \<times> error option" where
  "consumer jobObject s =
     (let jn = job (data jobObject);
          p = payload (data jobObject);
          s1 = consola LInfo (ProcessingJob (job_id jobObject) jn) s;
          s2 = consola LDebug (PayloadDump p) s1
      in (case Config_jobs_read s2 jn of
            Undefined \<Rightarrow> (consola LError (NoHandlerFound jn) s2, None)
          | InheritedValue \<Rightarrow>
              catch_block jobObject
                (if jn = ''constructor''
                 then TypeError ''(intermediate value).handle is not a function''
                 else TypeError ''jobHandler is not a constructor'') s2
          | JobClass jobHandler \<Rightarrow>
              (let s3 = called (Handle (class_name jobHandler) p)
                          (called (Instantiate (class_name jobHandler)) s2)
               in (case handle jobHandler p of
                     Resolves status \<Rightarrow>
                       (called (Done (job_id jobObject) None)
                          (consola LInfo (JobCompleted jn status) s3),
                        None)
                   | Throws err \<Rightarrow> catch_block jobObject err s3))))"

section \<open>Concrete inputs\<close>

text \<open>
  A job class for the queue \<open>emails\<close>, a configuration with that one queue, one with an
  empty queue list, one with no \<open>jobs\<close> section, and a transport that rejects.
\<close>

definition SendEmailJob :: job_class where
  "SendEmailJob = (Job ''SendEmailJob'' (\<lambda>p. Resolves True))\<lparr> class_queueName := ''emails'' \<rparr>"

definition FailingJob :: job_class where
  "FailingJob = Job ''FailingJob'' (\<lambda>p. Throws (JsError ''boom''))"

definition DecliningJob :: job_class where
  "DecliningJob = Job ''DecliningJob'' (\<lambda>p. Resolves False)"

text \<open>The example job of the repository: its \<open>handle\<close> is \<open>throw payload\<close>.\<close>

definition ExampleJob :: job_class where
  "ExampleJob = Job ''ExampleJob'' (\<lambda>p. Throws (ThrownValue p))"

definition mail_payload :: jsval where
  "mail_payload = JObj [(''to'', JStr ''a@b.com'')]"

definition env_emails :: env where
  "env_emails =
     \<lparr> Config_data =
         \<lparr> jobs = Some \<lparr> dir = ''jobs'', queues = Some [''emails''], options = None \<rparr>,
           redis = JObj [(''host'', JStr ''127.0.0.1''), (''port'', JNum 6379)] \<rparr>,
       cwd = ''/app'',
       readdirSync = (\<lambda>p. Inr [''SendEmailJob.ts'', ''README.md'']),
       require = (\<lambda>p. Inr [SendEmailJob]),
       add_rejects = (\<lambda>q d opts. None) \<rparr>"

definition env_no_queues :: env where
  "env_no_queues =
     env_emails\<lparr> Config_data :=
         \<lparr> jobs = Some \<lparr> dir = ''jobs'', queues = Some [], options = None \<rparr>,
           redis = JNull \<rparr> \<rparr>"

definition env_no_jobs :: env where
  "env_no_jobs = env_emails\<lparr> Config_data := \<lparr> jobs = None, redis = JNull \<rparr> \<rparr>"

definition env_rejecting :: env where
  "env_rejecting = env_emails\<lparr> add_rejects := (\<lambda>q d opts. Some (JsError ''ECONNREFUSED'')) \<rparr>"

text \<open>A worker process in which three job files have registered their classes.\<close>

definition worker_registry :: proc where
  "worker_registry = register FailingJob (register DecliningJob (register SendEmailJob proc0))"

text \<open>A worker process in which the example job is registered.\<close>

definition example_registry :: proc where
  "example_registry = register ExampleJob proc0"

text \<open>A configuration whose \<open>jobs.options.attempts\<close> is \<open>0\<close>.\<close>

definition env_zero_attempts :: env where
  "env_zero_attempts =
     env_emails\<lparr> Config_data :=
         \<lparr> jobs = Some \<lparr> dir = ''jobs'', queues = Some [''emails''],
                         options = Some \<lparr> removeOnComplete = JBool True, cfg_attempts = JNum 0,
                                          debug = JUndefined \<rparr> \<rparr>,
           redis = JNull \<rparr> \<rparr>"

section \<open>Reading the traces\<close>

text \<open>The calls of one kind, in order: submissions, closes, constructions and so on.\<close>

definition adds :: "call list \<Rightarrow> (nat \<times> envelope \<times> job_options) list" where
  "adds cs = [(i, d, opts). Add i d opts \<leftarrow> cs]"

definition submitted_options :: "call list \<Rightarrow> job_options list" where
  "submitted_options cs = [opts. Add i d opts \<leftarrow> cs]"

definition closes :: "call list \<Rightarrow> nat list" where
  "closes cs = [i. Close i \<leftarrow> cs]"

definition constructed :: "call list \<Rightarrow> bull_queue list" where
  "constructed cs = [q. NewQueue q \<leftarrow> cs]"

definition attached :: "call list \<Rightarrow> (nat \<times> nat) list" where
  "attached cs = [(i, k). Process i k \<leftarrow> cs]"

definition discoveries :: "call list \<Rightarrow> string list" where
  "discoveries cs = [p. Readdir p \<leftarrow> cs]"

definition dones :: "call list \<Rightarrow> (nat \<times> error option) list" where
  "dones cs = [(i, r). Done i r \<leftarrow> cs]"


text \<open>
  The states a process can be in: it starts in \<open>proc0\<close> and then runs the exported
  operations in any order.
\<close>

inductive reachable :: "env \<Rightarrow> proc \<Rightarrow> bool" for e :: env where
  boot: "reachable e proc0"
| by_register: "reachable e s \<Longrightarrow> reachable e (register c s)"
| by_loadJobs: "reachable e s \<Longrightarrow> reachable e (loadJobs e s)"
| by_lookup: "reachable e s \<Longrightarrow> queues_get n e prop s = Some (s', r) \<Longrightarrow> reachable e s'"
| by_assign: "reachable e s \<Longrightarrow> queues_set prop v s = Inr s' \<Longrightarrow> reachable e s'"
| by_initQueues: "reachable e s \<Longrightarrow> initQueues n e s = Some (s', ri) \<Longrightarrow> reachable e s'"
| by_configureQueue: "reachable e s \<Longrightarrow> configureQueue e qn s = (s', rq) \<Longrightarrow> reachable e s'"
| by_dispatch: "reachable e s \<Longrightarrow> dispatch e j p s = (s', j', rd) \<Longrightarrow> reachable e s'"
| by_dispatchNow: "reachable e s \<Longrightarrow> dispatchNow e j p s = (s', rn) \<Longrightarrow> reachable e s'"
| by_consumer: "reachable e s \<Longrightarrow> consumer jobObject s = (s', rc) \<Longrightarrow> reachable e s'"

text \<open>
  Three facts kept by every operation: the keys of \<open>queueMap\<close> are distinct, every
  queue constructed so far was given the options object built from the configuration,
  and so was every queue in \<open>queueMap\<close> that is not one of a given set \<open>Q\<close> (the queues
  put there from outside).
\<close>

definition queues_sound :: "bull_queue set \<Rightarrow> env \<Rightarrow> proc \<Rightarrow> bool" where
  "queues_sound Q e s \<longleftrightarrow>
     distinct (map fst (queueMap s)) \<and>
     (\<forall>q \<in> set (constructed (calls s)). build_defaultJobOptions e = Inr (defaultJobOptions q)) \<and>
     (\<forall>q \<in> snd ` set (queueMap s).
        q \<in> Q \<or> build_defaultJobOptions e = Inr (defaultJobOptions q))"

text \<open>
  The default \<open>attempts\<close> of a queue is \<open>Config.data.jobs.options?.attempts || 2\<close>: 2 when
  the configured value is falsy, the configured value otherwise.
\<close>

definition has_default_attempts :: "env \<Rightarrow> bull_queue \<Rightarrow> bool" where
  "has_default_attempts e q \<longleftrightarrow>
     (\<exists>jc. jobs (Config_data e) = Some jc \<and>
        (\<not> truthy (options_attempts jc) \<longrightarrow> default_attempts (defaultJobOptions q) = JNum 2) \<and>
        (truthy (options_attempts jc) \<longrightarrow>
           default_attempts (defaultJobOptions q) = options_attempts jc))"

section \<open>Basic facts\<close>

lemma adds_simps [simp]:
  "adds [] = []"
  "adds (xs @ ys) = adds xs @ adds ys"
  "adds (c # cs) = (case c of Add i d opts \<Rightarrow> [(i, d, opts)] | _ \<Rightarrow> []) @ adds cs"
  by (simp_all add: adds_def)

lemma submitted_options_simps [simp]:
  "submitted_options [] = []"
  "submitted_options (xs @ ys) = submitted_options xs @ submitted_options ys"
  "submitted_options (c # cs) =
     (case c of Add i d opts \<Rightarrow> [opts] | _ \<Rightarrow> []) @ submitted_options cs"
  by (simp_all add: submitted_options_def)

lemma closes_simps [simp]:
  "closes [] = []"
  "closes (xs @ ys) = closes xs @ closes ys"
  "closes (c # cs) = (case c of Close i \<Rightarrow> [i] | _ \<Rightarrow> []) @ closes cs"
  by (simp_all add: closes_def)

lemma dones_simps [simp]:
  "dones [] = []"
  "dones (xs @ ys) = dones xs @ dones ys"
  "dones (c # cs) = (case c of Done i r \<Rightarrow> [(i, r)] | _ \<Rightarrow> []) @ dones cs"
  by (simp_all add: dones_def)

lemma constructed_simps [simp]:
  "constructed [] = []"
  "constructed (xs @ ys) = constructed xs @ constructed ys"
  "constructed (c # cs) = (case c of NewQueue q \<Rightarrow> [q] | _ \<Rightarrow> []) @ constructed cs"
  by (simp_all add: constructed_def)

lemma attached_simps [simp]:
  "attached [] = []"
  "attached (xs @ ys) = attached xs @ attached ys"
  "attached (c # cs) = (case c of Process i k \<Rightarrow> [(i, k)] | _ \<Rightarrow> []) @ attached cs"
  by (simp_all add: attached_def)

lemma discoveries_simps [simp]:
  "discoveries [] = []"
  "discoveries (xs @ ys) = discoveries xs @ discoveries ys"
  "discoveries (c # cs) = (case c of Readdir pa \<Rightarrow> [pa] | _ \<Rightarrow> []) @ discoveries cs"
  by (simp_all add: discoveries_def)

lemma consola_fields [simp]:
  "isInitialized (consola l m s) = isInitialized s"
  "queueMap (consola l m s) = queueMap s"
  "Config_jobs (consola l m s) = Config_jobs s"
  "next_qid (consola l m s) = next_qid s"
  "calls (consola l m s) = calls s"
  "logs (consola l m s) = logs s @ [(l, m)]"
  by (simp_all add: consola_def)

lemma called_fields [simp]:
  "isInitialized (called c s) = isInitialized s"
  "queueMap (called c s) = queueMap s"
  "Config_jobs (called c s) = Config_jobs s"
  "next_qid (called c s) = next_qid s"
  "calls (called c s) = calls s @ [c]"
  "logs (called c s) = logs s"
  by (simp_all add: called_def)

lemma fold_register_fields [simp]:
  "isInitialized (fold register cs s) = isInitialized s"
  "queueMap (fold register cs s) = queueMap s"
  "next_qid (fold register cs s) = next_qid s"
  "calls (fold register cs s) = calls s"
  by (induction cs arbitrary: s; simp add: register_def)+

lemma require_all_fields:
  "isInitialized (fst (require_all e pa fs s)) = isInitialized s"
  "queueMap (fst (require_all e pa fs s)) = queueMap s"
  "next_qid (fst (require_all e pa fs s)) = next_qid s"
  "constructed (calls (fst (require_all e pa fs s))) = constructed (calls s)"
  "attached (calls (fst (require_all e pa fs s))) = attached (calls s)"
  "discoveries (calls (fst (require_all e pa fs s))) = discoveries (calls s)"
  by (induction fs arbitrary: s; simp add: Let_def split: sum.splits)+

lemma loadJobs_fields [simp]:
  "isInitialized (loadJobs e s) = isInitialized s"
  "queueMap (loadJobs e s) = queueMap s"
  "next_qid (loadJobs e s) = next_qid s"
  "constructed (calls (loadJobs e s)) = constructed (calls s)"
  "attached (calls (loadJobs e s)) = attached (calls s)"
  "discoveries (calls (loadJobs e s)) =
     discoveries (calls s) @ (case jobs (Config_data e) of None \<Rightarrow> [] | Some jc \<Rightarrow> [cwd e @ ''/'' @ dir jc])"
  using require_all_fields [of e "cwd e @ ''/'' @ dir (the (jobs (Config_data e)))"]
  by (auto simp: loadJobs_def Let_def split: option.splits sum.splits prod.splits
           dest!: arg_cong [where f = fst])


lemma init_guard_fields:
  "queueMap (fst (init_guard e s)) = queueMap s"
  "next_qid (fst (init_guard e s)) = next_qid s"
  "calls (fst (init_guard e s)) = calls s"
  by (simp_all add: init_guard_def Let_def split: option.splits list.splits)


lemma init_guard_initialized:
  "isInitialized s \<Longrightarrow> init_guard e s = (s, False)"
  by (simp add: init_guard_def)

lemma new_Queue_fields:
  "new_Queue e qn d s = (s1, q) \<Longrightarrow>
     queueMap s1 = queueMap s \<and> isInitialized s1 = isInitialized s \<and>
     next_qid s1 = Suc (next_qid s) \<and> calls s1 = calls s @ [NewQueue q] \<and>
     qid q = next_qid s \<and> qname q = qn \<and> defaultJobOptions q = d"
  by (auto simp: new_Queue_def Let_def)

lemma getOptions_queue [simp]: "getOptions (j\<lparr> queue := q \<rparr>) = getOptions j"
  by (simp add: getOptions_def)

lemmas dispatch_defs =
  dispatch_def configureQueue_def build_defaultJobOptions_def new_Queue_def
  called_def consola_def info_def Let_def

lemmas example_defs =
  env_emails_def env_no_queues_def env_no_jobs_def env_rejecting_def
  SendEmailJob_def FailingJob_def DecliningJob_def ExampleJob_def Job_def new_job_def proc0_def
  env_zero_attempts_def example_registry_def
  mail_payload_def options_removeOnComplete_def options_attempts_def js_or_def

section \<open>dispatch\<close>

lemma dispatch_adds:
  assumes "dispatch e j p s = (s', j', r)" and "jobs (Config_data e) = Some jc"
  shows "\<exists>s1 q. configureQueue e (queueName j) s = (s1, Inr q) \<and> qname q = queueName j \<and>
           queue j' = Some q \<and>
           adds (calls s') =
             adds (calls s) @
               [(qid q, \<lparr> job = class_name (constructor j), payload = p \<rparr>, getOptions j)]"
  using assms by (auto simp: dispatch_defs split: option.splits if_splits)



text \<open>
  With no \<open>jobs\<close> section in the configuration, \<open>configureQueue\<close> throws on
  \<open>Config.data.jobs.options\<close> and the same dispatch makes no \<open>add\<close> call.
\<close>

lemma dispatch_without_jobs_config_submits_nothing:
  "queueName (new_job SendEmailJob) = ''emails'' \<and>
   adds (calls (fst (dispatch env_no_jobs (new_job SendEmailJob) mail_payload proc0))) = [] \<and>
   snd (snd (dispatch env_no_jobs (new_job SendEmailJob) mail_payload proc0)) =
     Inl (TypeError ''Cannot read properties of undefined (reading options)'')"
  by (simp add: dispatch_defs example_defs)

text \<open>
  C2. Every options object that \<open>dispatch\<close> submits is \<open>getOptions\<close> of the instance
  (one submission, none when \<open>configureQueue\<close> throws). With \<open>delayInSeconds = 5\<close> and
  \<open>attempts = 3\<close> it is \<open>{delay: 5000, attempts: 3}\<close>; with \<open>delayInSeconds = 0\<close> it has no
  \<open>delay\<close> key.
\<close>

theorem dispatch_options_from_delay_and_attempts:
  "submitted_options (calls (fst (dispatch e j p s))) =
     submitted_options (calls s) @ (if jobs (Config_data e) = None then [] else [getOptions j]) \<and>
   (delayInSeconds j = 5 \<and> attempts j = 3 \<longrightarrow>
      getOptions j = \<lparr> opt_delay = Some 5000, opt_attempts = Some 3 \<rparr>) \<and>
   (delayInSeconds j = 0 \<longrightarrow> opt_delay (getOptions j) = None)"
  by (auto simp: dispatch_defs getOptions_def split: option.splits)

text \<open>
  C2, witness: a job delayed by five seconds with three attempts, and one with the
  default delay of zero, both dispatched in a fresh process.
\<close>

theorem dispatch_options_from_delay_and_attempts_witness:
  "delayInSeconds ((delay 5 (new_job SendEmailJob))\<lparr> attempts := 3 \<rparr>) = 5 \<and>
   attempts ((delay 5 (new_job SendEmailJob))\<lparr> attempts := 3 \<rparr>) = 3 \<and>
   submitted_options (calls (fst (dispatch env_emails
      ((delay 5 (new_job SendEmailJob))\<lparr> attempts := 3 \<rparr>) mail_payload proc0))) =
     [\<lparr> opt_delay = Some 5000, opt_attempts = Some 3 \<rparr>] \<and>
   delayInSeconds (new_job SendEmailJob) = 0 \<and>
   submitted_options (calls (fst (dispatch env_emails (new_job SendEmailJob) mail_payload proc0))) =
     [\<lparr> opt_delay = None, opt_attempts = Some 5 \<rparr>]"
  using dispatch_options_from_delay_and_attempts
          [of env_emails "(delay 5 (new_job SendEmailJob))\<lparr> attempts := 3 \<rparr>" mail_payload proc0]
        dispatch_options_from_delay_and_attempts
          [of env_emails "new_job SendEmailJob" mail_payload proc0]
  by (simp add: example_defs delay_def getOptions_def)

text \<open>
  C8, at the failing input. When the transport rejects the submission, \<open>dispatch\<close> ends
  with that error and the queue it constructed is never closed; when the transport
  accepts, the queue is closed and the result is \<open>true\<close>.
\<close>

theorem dispatch_rejected_add_leaves_queue_open:
  "(case dispatch env_rejecting (new_job SendEmailJob) mail_payload proc0 of
      (s, j, r) \<Rightarrow>
        r = Inl (JsError ''ECONNREFUSED'') \<and> map qid (constructed (calls s)) = [0] \<and>
        map fst (adds (calls s)) = [0] \<and> closes (calls s) = []) \<and>
   (case dispatch env_emails (new_job SendEmailJob) mail_payload proc0 of
      (s, j, r) \<Rightarrow>
        r = Inr True \<and> map qid (constructed (calls s)) = [0] \<and>
        map fst (adds (calls s)) = [0] \<and> closes (calls s) = [0])"
  by (simp add: dispatch_defs example_defs constructed_def)

section \<open>dispatchNow\<close>

text \<open>
  C9. \<open>dispatchNow\<close> returns what \<open>handle\<close> returns and throws what it throws; the only
  call it makes is \<open>handle(payload)\<close>, so nothing is submitted to any queue.
\<close>

theorem dispatchNow_is_handle:
  "snd (dispatchNow e j p s) =
     (case handle (constructor j) p of Resolves b \<Rightarrow> Inr b | Throws err \<Rightarrow> Inl err) \<and>
   calls (fst (dispatchNow e j p s)) = calls s @ [Handle (class_name (constructor j)) p] \<and>
   adds (calls (fst (dispatchNow e j p s))) = adds (calls s)"
  by (simp add: dispatchNow_def called_def consola_def info_def Let_def split: handle_result.splits)

section \<open>The consumer\<close>

text \<open>
  What the consumer tells the transport about a job whose class is registered: \<open>done()\<close>
  when \<open>handle\<close> resolves, to \<open>true\<close> or to \<open>false\<close>; \<open>done(error)\<close> when it throws and the
  \<open>message\<close> of what was thrown can be read; nothing when that read throws.
\<close>

lemma consumer_done_calls:
  assumes "map_of (Config_jobs s) (job (data jobObject)) = Some c"
  shows "(handle c (payload (data jobObject)) = Resolves b \<longrightarrow>
            dones (calls (fst (consumer jobObject s))) =
              dones (calls s) @ [(job_id jobObject, None)]) \<and>
         (handle c (payload (data jobObject)) = Throws err \<and> message_of err = Inr m \<longrightarrow>
            dones (calls (fst (consumer jobObject s))) =
              dones (calls s) @ [(job_id jobObject, Some err)]) \<and>
         (handle c (payload (data jobObject)) = Throws err \<and> message_of err = Inl thrown \<longrightarrow>
            dones (calls (fst (consumer jobObject s))) = dones (calls s) \<and>
            snd (consumer jobObject s) = Some thrown)"
  using assms
  by (simp add: consumer_def Config_jobs_read_def catch_block_def called_def consola_def Let_def)

text \<open>
  C6, at the failing input. The example job throws its payload. Delivered with no
  payload it throws \<open>undefined\<close>: the \<open>catch\<close> block throws on \<open>error.message\<close>, and the
  consumer calls neither \<open>done(error)\<close> nor \<open>done()\<close>. Delivered with the payload
  \<open>"async"\<close> it throws a string, and the consumer calls \<open>done\<close> with it. A handler that
  resolves to \<open>false\<close> gets \<open>done()\<close>.
\<close>

theorem consumer_thrown_undefined_never_calls_done:
  "consumer \<lparr> job_id = 3, data = \<lparr> job = ''ExampleJob'', payload = JUndefined \<rparr> \<rparr>
     example_registry =
     (example_registry
        \<lparr> calls := [Instantiate ''ExampleJob'', Handle ''ExampleJob'' JUndefined],
          logs := [(LInfo, ProcessingJob 3 ''ExampleJob''), (LDebug, PayloadDump JUndefined)] \<rparr>,
      Some (TypeError ''Cannot read properties of undefined (reading message)'')) \<and>
   dones (calls (fst (consumer
     \<lparr> job_id = 3, data = \<lparr> job = ''ExampleJob'', payload = JUndefined \<rparr> \<rparr> example_registry))) = [] \<and>
   dones (calls (fst (consumer
     \<lparr> job_id = 4, data = \<lparr> job = ''ExampleJob'', payload = JStr ''async'' \<rparr> \<rparr> example_registry))) =
     [(4, Some (ThrownValue (JStr ''async'')))] \<and>
   dones (calls (fst (consumer
     \<lparr> job_id = 1, data = \<lparr> job = ''DecliningJob'', payload = mail_payload \<rparr> \<rparr> worker_registry))) =
     [(1, None)]"
  by (simp add: consumer_def Config_jobs_read_def catch_block_def worker_registry_def
        register_def example_defs consola_def called_def Let_def)

text \<open>
  C7, at the failing input. For a job name that is not registered the consumer logs
  the error and returns: it instantiates nothing and calls no \<open>handle\<close>, and it calls
  neither \<open>done()\<close> nor \<open>done(error)\<close>.
\<close>

theorem consumer_unknown_unit_returns_without_done:
  "calls (fst (consumer \<lparr> job_id = 7, data = \<lparr> job = ''Nonexistent'', payload = JObj [] \<rparr> \<rparr>
            worker_registry)) = [] \<and>
   logs (fst (consumer \<lparr> job_id = 7, data = \<lparr> job = ''Nonexistent'', payload = JObj [] \<rparr> \<rparr>
            worker_registry)) =
     [(LInfo, ProcessingJob 7 ''Nonexistent''), (LDebug, PayloadDump (JObj [])),
      (LError, NoHandlerFound ''Nonexistent'')] \<and>
   snd (consumer \<lparr> job_id = 7, data = \<lparr> job = ''Nonexistent'', payload = JObj [] \<rparr> \<rparr>
            worker_registry) = None"
  by (simp add: consumer_def Config_jobs_read_def inherited_names_def worker_registry_def
        register_def example_defs consola_def called_def Let_def)

section \<open>The queues proxy: initialisation\<close>




lemma queues_get_result:
  "queues_get n e pr s = Some (s', Inr (Some q)) \<Longrightarrow> map_of (queueMap s') pr = Some q"
  by (induction n arbitrary: s)
     (auto simp del: initQueues.simps
           split: if_splits option.splits sum.splits init_result.splits prod.splits)

lemma queues_get_cached:
  "queueMap s \<noteq> [] \<Longrightarrow> queues_get (Suc n) e prop s = Some (s, Inr (map_of (queueMap s) prop))"
  by simp




lemma uninitialisable_get_diverges:
  assumes "configured_queues e = None \<or> configured_queues e = Some []"
  shows "queueMap s = [] \<Longrightarrow> isInitialized s \<Longrightarrow> queues_get n e prop s = None"
proof (induction n arbitrary: s)
  case 0
  then show ?case by simp
next
  case (Suc n)
  have g: "init_guard e (loadJobs e s) = (loadJobs e s, False)"
    using Suc.prems by (simp add: init_guard_initialized)
  define s2 where "s2 = consola LSuccess ReadyToGo
      (consola LDebug (ConfigJobs (map fst (Config_jobs (loadJobs e s)))) (loadJobs e s))"
  have i: "initQueues n e s = Some (s2, Inr QueuesProxy)"
    using assms g by (auto simp: s2_def Let_def)
  have "queues_get n e prop s2 = None"
    using Suc.prems by (intro Suc.IH) (simp_all add: s2_def)
  then show ?case
    using Suc.prems i by simp
qed


lemma first_lookup_without_queues:
  assumes "configured_queues e = None \<or> configured_queues e = Some []"
    and "queueMap s = []" and "\<not> isInitialized s"
  shows "\<exists>s1. queues_get (Suc n) e prop s = Some (s1, Inr None) \<and> queueMap s1 = [] \<and>
           isInitialized s1 \<and> constructed (calls s1) = constructed (calls s) \<and>
           logs s1 = logs (loadJobs e s) @ [(LInfo, InitializingQueues), (LWarn, NoQueuesConfigured)]"
  using assms by (auto simp: init_guard_def Let_def)

text \<open>
  C5, at the failing input. With an empty queue list the first read of \<open>queues.emails\<close>
  logs the warning, leaves \<open>queueMap\<close> empty and returns \<open>undefined\<close>. The second read
  finds \<open>queueMap\<close> empty again, calls \<open>initQueues\<close>, which now returns the proxy itself,
  and reads the property from the proxy: the \<open>get\<close> trap calls itself without end, and
  no call depth is enough for it to return.
\<close>

theorem second_lookup_without_queues_never_returns:
  "\<exists>s1. queues_get 1 env_no_queues ''emails'' proc0 = Some (s1, Inr None) \<and>
         queueMap s1 = [] \<and> (LWarn, NoQueuesConfigured) \<in> set (logs s1) \<and>
         (\<forall>n. queues_get n env_no_queues ''emails'' s1 = None)"
proof -
  have c: "configured_queues env_no_queues = None \<or> configured_queues env_no_queues = Some []"
    by (simp add: configured_queues_def example_defs)
  obtain s1 where g: "queues_get (Suc 0) env_no_queues ''emails'' proc0 = Some (s1, Inr None)"
    and q: "queueMap s1 = []" and i: "isInitialized s1"
    and l: "logs s1 = logs (loadJobs env_no_queues proc0) @
                        [(LInfo, InitializingQueues), (LWarn, NoQueuesConfigured)]"
    using first_lookup_without_queues [OF c, of proc0 0 "''emails''"]
    by (auto simp: proc0_def)
  have "\<forall>n. queues_get n env_no_queues ''emails'' s1 = None"
    using uninitialisable_get_diverges [OF c q i] by simp
  then show ?thesis
    using g q l by auto
qed

section \<open>Reachable states\<close>

lemma sound_consola [simp]: "queues_sound Q e (consola l m s) = queues_sound Q e s"
  by (simp add: queues_sound_def)

lemma sound_loadJobs [simp]: "queues_sound Q e (loadJobs e s) = queues_sound Q e s"
  by (simp add: queues_sound_def)

lemma sound_init_guard: "init_guard e s = (s1, b) \<Longrightarrow> queues_sound Q e s1 = queues_sound Q e s"
  using init_guard_fields [of e s] by (simp add: queues_sound_def)

lemma sound_new_Queue:
  "build_defaultJobOptions e = Inr d \<Longrightarrow> new_Queue e qn d s = (s1, q) \<Longrightarrow>
     queues_sound Q e s \<Longrightarrow> queues_sound Q e s1"
  by (auto simp: queues_sound_def dest!: new_Queue_fields)

lemma set_update_subset: "set (AList.update k v al) \<subseteq> insert (k, v) (set al)"
  by (induction al) auto

lemma sound_queues_set:
  assumes "queues_set pr (QueueInstance q) s = Inr s1" and "queues_sound Q e s"
    and "q \<in> Q \<or> build_defaultJobOptions e = Inr (defaultJobOptions q)"
  shows "queues_sound Q e s1"
proof -
  have s1: "s1 = s\<lparr> queueMap := AList.update pr q (queueMap s) \<rparr>"
    using assms(1) by (simp add: queues_set_def)
  have "\<forall>x \<in> snd ` set (AList.update pr q (queueMap s)).
          x \<in> Q \<or> build_defaultJobOptions e = Inr (defaultJobOptions x)"
    using assms(2,3) set_update_subset [of pr q "queueMap s"]
    by (auto simp: queues_sound_def)
  then show ?thesis
    using assms(2) by (simp add: s1 queues_sound_def distinct_update)
qed

lemma sound_assign:
  "queues_set pr v s = Inr s1 \<Longrightarrow> queues_sound UNIV e s \<Longrightarrow> queues_sound UNIV e s1"
  by (cases v) (auto simp: queues_set_def queues_sound_def distinct_update)

lemma sound_Process [simp]: "queues_sound Q e (called (Process i k) s) = queues_sound Q e s"
  by (simp add: queues_sound_def)

lemma sound_get_family:
  "queues_get n e pr s = Some (s', r) \<Longrightarrow> queues_sound Q e s \<Longrightarrow> queues_sound Q e s'"
  "initQueues n e s = Some (s', ri) \<Longrightarrow> queues_sound Q e s \<Longrightarrow> queues_sound Q e s'"
  "create_queues n e names s = Some (s', rc) \<Longrightarrow> queues_sound Q e s \<Longrightarrow> queues_sound Q e s'"
proof (induction n e pr s and n e s and n e names s
       arbitrary: s' r and s' ri and s' rc
       rule: queues_get_initQueues_create_queues.induct)
  case (1 e pr s)
  then show ?case by simp
next
  case (2 n e pr s)
  then show ?case
    by (auto split: if_splits option.splits sum.splits init_result.splits)
next
  case (3 n e s)
  obtain s1 b where g: "init_guard e (loadJobs e s) = (s1, b)"
    by (cases "init_guard e (loadJobs e s)") auto
  have s1: "queues_sound Q e s1"
    using sound_init_guard [OF g, of Q] "3.prems"(2) by simp
  define s2 where "s2 = consola LDebug (ConfigJobs (map fst (Config_jobs s1))) s1"
  have s2: "queues_sound Q e s2"
    using s1 by (simp add: s2_def)
  show ?case
  proof (cases b)
    case True
    with "3.prems"(1) g s1 show ?thesis by simp
  next
    case False
    show ?thesis
    proof (cases "configured_queues e")
      case None
      with "3.prems"(1) g False s2 show ?thesis
        by (auto simp: s2_def Let_def)
    next
      case (Some names)
      show ?thesis
      proof (cases "create_queues n e names s2")
        case None
        with "3.prems"(1) g False Some show ?thesis
          by (simp add: s2_def Let_def)
      next
        case created: (Some res)
        obtain s3 r3 where res: "res = (s3, r3)"
          by (cases res) auto
        have s3: "queues_sound Q e s3"
          using "3.IH" [OF g [symmetric] _ s2_def Some _ s2] False created res by simp
        show ?thesis
          using "3.prems"(1) g False Some created res s3
          by (cases r3) (auto simp: s2_def Let_def)
      qed
    qed
  qed
next
  case (4 n e s)
  then show ?case by simp
next
  case (5 n e qn rest s)
  show ?case
  proof (cases "build_defaultJobOptions e")
    case (Inl err)
    with "5.prems" show ?thesis by simp
  next
    case (Inr d)
    obtain s1 q where nq: "new_Queue e qn d s = (s1, q)"
      by (cases "new_Queue e qn d s") auto
    have s1: "queues_sound Q e s1"
      using sound_new_Queue [OF Inr nq "5.prems"(2)] .
    show ?thesis
    proof (cases "queues_set qn (QueueInstance q) s1")
      case (Inl err)
      with "5.prems"(1) Inr nq s1 show ?thesis by simp
    next
      case set: (Inr s2)
      have s2: "queues_sound Q e s2"
        using sound_queues_set [OF set s1] new_Queue_fields [OF nq] Inr by simp
      show ?thesis
      proof (cases "queues_get n e qn s2")
        case None
        with "5.prems"(1) Inr nq set show ?thesis by simp
      next
        case (Some got)
        obtain s3 r3 where got: "got = (s3, r3)"
          by (cases got) auto
        have s3: "queues_sound Q e s3"
          using "5.IH"(1) [OF Inr nq [symmetric] set _ s2] Some got by simp
        show ?thesis
        proof (cases r3)
          case (Inl err)
          with "5.prems"(1) \<open>build_defaultJobOptions e = Inr d\<close> nq set Some got s3
          show ?thesis by simp
        next
          case found: (Inr h)
          show ?thesis
          proof (cases h)
            case None
            with "5.prems"(1) \<open>build_defaultJobOptions e = Inr d\<close> nq set Some got found s3
            show ?thesis by simp
          next
            case (Some q1)
            have rest: "create_queues n e rest (called (Process (qid q1) 1) s3) = Some (s', rc)"
              using "5.prems"(1) \<open>build_defaultJobOptions e = Inr d\<close> nq set
                \<open>queues_get n e qn s2 = Some got\<close> got found Some by simp
            show ?thesis
              using "5.IH"(2) [OF \<open>build_defaultJobOptions e = Inr d\<close> nq [symmetric] set _ _ _ _ rest]
                \<open>queues_get n e qn s2 = Some got\<close> got found Some s3 by simp
          qed
        qed
      qed
    qed
  qed
qed


lemma sound_configureQueue:
  "configureQueue e qn s = (s', rq) \<Longrightarrow> queues_sound Q e s \<Longrightarrow> queues_sound Q e s'"
  by (auto simp: configureQueue_def split: sum.splits prod.splits dest: sound_new_Queue)

lemma dispatch_after_configureQueue:
  "dispatch e j p s = (s', j', rd) \<Longrightarrow>
     \<exists>s1 rq. configureQueue e (queueName j) s = (s1, rq) \<and> queueMap s' = queueMap s1 \<and>
       constructed (calls s') = constructed (calls s1)"
  by (auto simp: dispatch_def info_def Let_def split: prod.splits sum.splits option.splits if_splits)

lemma sound_dispatch:
  assumes "dispatch e j p s = (s', j', rd)" and "queues_sound Q e s"
  shows "queues_sound Q e s'"
proof -
  obtain s1 rq where c: "configureQueue e (queueName j) s = (s1, rq)"
    and m: "queueMap s' = queueMap s1" and k: "constructed (calls s') = constructed (calls s1)"
    using dispatch_after_configureQueue [OF assms(1)] by blast
  have "queues_sound Q e s1"
    using sound_configureQueue [OF c assms(2)] .
  then show ?thesis
    by (simp add: queues_sound_def m k)
qed

lemma sound_dispatchNow:
  "dispatchNow e j p s = (s', rn) \<Longrightarrow> queues_sound Q e s \<Longrightarrow> queues_sound Q e s'"
  by (auto simp: dispatchNow_def info_def Let_def queues_sound_def
           split: handle_result.splits if_splits)

lemma sound_consumer:
  "consumer jobObject s = (s', rc) \<Longrightarrow> queues_sound Q e s \<Longrightarrow> queues_sound Q e s'"
  by (auto simp: consumer_def catch_block_def Let_def queues_sound_def
           split: registry_value.splits handle_result.splits sum.splits)

lemma reachable_sound: "reachable e s \<Longrightarrow> queues_sound UNIV e s"
proof (induction rule: reachable.induct)
  case boot
  then show ?case by (simp add: queues_sound_def proc0_def)
next
  case (by_register s c)
  then show ?case by (simp add: queues_sound_def register_def)
qed (auto simp del: queues_get.simps initQueues.simps create_queues.simps
       dest: sound_get_family sound_assign sound_configureQueue sound_dispatch
         sound_dispatchNow sound_consumer)

lemma sound_from_cache:
  "queues_sound UNIV e s \<Longrightarrow> queues_sound (snd ` set (queueMap s)) e s"
  by (simp add: queues_sound_def)

lemma default_attempts_built:
  "build_defaultJobOptions e = Inr (defaultJobOptions q) \<Longrightarrow> has_default_attempts e q"
proof -
  assume b: "build_defaultJobOptions e = Inr (defaultJobOptions q)"
  then obtain jc where jc: "jobs (Config_data e) = Some jc"
    and dq: "defaultJobOptions q =
               \<lparr> default_removeOnComplete = options_removeOnComplete jc,
                 default_attempts = js_or (options_attempts jc) (JNum 2) \<rparr>"
    by (auto simp: build_defaultJobOptions_def split: option.splits)
  show ?thesis
    using jc by (simp add: has_default_attempts_def dq js_or_def)
qed

lemma configureQueue_handle:
  "configureQueue e qn s = (s1, Inr q) \<Longrightarrow>
     build_defaultJobOptions e = Inr (defaultJobOptions q) \<and> qname q = qn \<and>
     constructed (calls s1) = constructed (calls s) @ [q]"
  by (auto simp: configureQueue_def split: sum.splits prod.splits dest!: new_Queue_fields)



text \<open>
  C4, as the code has it. In every reachable state \<open>queueMap\<close> holds at most one handle
  per queue name, and a read of \<open>queues\<close> for a name that has a handle returns that
  handle and changes nothing. \<open>dispatch\<close> does not use the cache: it leaves \<open>queueMap\<close> as
  it is and, whenever the \<open>jobs\<close> section is configured, constructs one more queue.
\<close>

theorem cache_holds_one_handle_per_name:
  assumes "reachable e s"
  shows "distinct (map fst (queueMap s)) \<and>
         (map_of (queueMap s) qn = Some q \<longrightarrow>
            queues_get (Suc n) e qn s = Some (s, Inr (Some q))) \<and>
         queueMap (fst (dispatch e j p s)) = queueMap s \<and>
         (jobs (Config_data e) \<noteq> None \<longrightarrow>
            length (constructed (calls (fst (dispatch e j p s)))) =
              Suc (length (constructed (calls s))))"
proof -
  have d: "distinct (map fst (queueMap s))"
    using reachable_sound [OF assms] by (simp add: queues_sound_def)
  have g: "map_of (queueMap s) qn = Some q \<longrightarrow>
             queues_get (Suc n) e qn s = Some (s, Inr (Some q))"
    by auto
  have m: "queueMap (fst (dispatch e j p s)) = queueMap s"
    by (simp add: dispatch_defs split: option.splits)
  have c: "jobs (Config_data e) \<noteq> None \<longrightarrow>
            length (constructed (calls (fst (dispatch e j p s)))) =
              Suc (length (constructed (calls s)))"
    by (auto simp: dispatch_defs split: option.splits)
  show ?thesis using d g m c by blast
qed

text \<open>
  C4, witness: the state after one read of \<open>queues.emails\<close>.
\<close>

theorem cache_holds_one_handle_per_name_witness:
  "\<exists>s q. reachable env_emails s \<and> map_of (queueMap s) ''emails'' = Some q \<and>
     jobs (Config_data env_emails) \<noteq> None \<and>
     queues_get 1 env_emails ''emails'' s = Some (s, Inr (Some q)) \<and>
     queueMap (fst (dispatch env_emails (new_job SendEmailJob) mail_payload s)) = queueMap s \<and>
     length (constructed (calls (fst (dispatch env_emails (new_job SendEmailJob) mail_payload s)))) =
       Suc (length (constructed (calls s)))"
proof -
  obtain s q where g: "queues_get 2 env_emails ''emails'' proc0 = Some (s, Inr (Some q))"
    by (simp add: numeral_2_eq_2 init_guard_def loadJobs_def configured_queues_def endsWith_def
          queues_set_def register_def dispatch_defs example_defs)
  have r: "reachable env_emails s"
    using reachable.by_lookup [OF reachable.boot g] .
  have m: "map_of (queueMap s) ''emails'' = Some q"
    using g by (auto simp: numeral_2_eq_2 init_guard_def loadJobs_def configured_queues_def
          endsWith_def queues_set_def register_def dispatch_defs example_defs)
  have c: "jobs (Config_data env_emails) \<noteq> None"
    by (simp add: example_defs)
  note t = cache_holds_one_handle_per_name
             [OF r, of "''emails''" q 0 "new_job SendEmailJob" mail_payload]
  have "reachable env_emails s \<and> map_of (queueMap s) ''emails'' = Some q \<and>
     jobs (Config_data env_emails) \<noteq> None \<and>
     queues_get 1 env_emails ''emails'' s = Some (s, Inr (Some q)) \<and>
     queueMap (fst (dispatch env_emails (new_job SendEmailJob) mail_payload s)) = queueMap s \<and>
     length (constructed (calls (fst (dispatch env_emails (new_job SendEmailJob) mail_payload s)))) =
       Suc (length (constructed (calls s)))"
    using t r m c by (simp del: queues_get.simps)
  then show ?thesis by blast
qed

text \<open>
  C4, counterexample: after the read of \<open>queues.emails\<close> has created and cached the
  handle of \<open>emails\<close>, a dispatch on the queue \<open>emails\<close> constructs a second queue of that
  name, which is not the cached one, and submits to it.
\<close>

theorem dispatch_constructs_second_handle:
  "\<exists>s1 q0. queues_get 2 env_emails ''emails'' proc0 = Some (s1, Inr (Some q0)) \<and>
     (case dispatch env_emails (new_job SendEmailJob) mail_payload s1 of
        (s2, j, r) \<Rightarrow>
          queue j \<noteq> Some q0 \<and>
          map qname (constructed (calls s2)) = [''emails'', ''emails''] \<and>
          map qid (constructed (calls s2)) = [0, 1] \<and>
          map fst (adds (calls s2)) = [1])"
  by (simp add: numeral_2_eq_2 init_guard_def loadJobs_def configured_queues_def endsWith_def
        queues_set_def register_def dispatch_defs example_defs)

text \<open>
  C10. Every queue handle this code builds has default job options whose \<open>attempts\<close> is 2
  when \<open>Config.data.jobs.options?.attempts\<close> is falsy (absent, \<open>0\<close>, \<open>NaN\<close>, \<open>null\<close>, ...) and
  is the configured value otherwise: every queue constructed in a reachable state; the
  handle \<open>configureQueue\<close> returns, which is the queue it constructed; the handle
  \<open>dispatch\<close> keeps in \<open>this.queue\<close> and submits to, which is that handle; every handle
  \<open>initQueues\<close> adds to \<open>queueMap\<close>; and every handle a read of \<open>queues\<close> returns out of
  an empty \<open>queueMap\<close>. The field initialiser of \<open>Job\<close> sets \<open>attempts\<close> to 5.
\<close>

theorem constructed_queues_default_attempts:
  assumes "reachable e s"
  shows "(q \<in> set (constructed (calls s)) \<longrightarrow> has_default_attempts e q) \<and>
         (configureQueue e qn s = (s1, Inr q1) \<longrightarrow>
            has_default_attempts e q1 \<and> qname q1 = qn \<and>
            constructed (calls s1) = constructed (calls s) @ [q1]) \<and>
         (dispatch e j p s = (s2, j2, rd) \<and> jobs (Config_data e) \<noteq> None \<longrightarrow>
            (\<exists>q2. queue j2 = Some q2 \<and> has_default_attempts e q2 \<and> qname q2 = queueName j \<and>
               constructed (calls s2) = constructed (calls s) @ [q2] \<and>
               map fst (adds (calls s2)) = map fst (adds (calls s)) @ [qid q2])) \<and>
         (initQueues n e s = Some (s3, ri) \<longrightarrow>
            (\<forall>q3 \<in> snd ` set (queueMap s3).
               q3 \<in> snd ` set (queueMap s) \<or> has_default_attempts e q3)) \<and>
         (queues_get n e qn s = Some (s4, Inr (Some q4)) \<and> queueMap s = [] \<longrightarrow>
            has_default_attempts e q4) \<and>
         class_attempts (Job cn h) = 5"
proof -
  note inv = reachable_sound [OF assms]
  have a: "q \<in> set (constructed (calls s)) \<longrightarrow> has_default_attempts e q"
    using inv by (auto simp: queues_sound_def intro: default_attempts_built)
  have b: "configureQueue e qn s = (s1, Inr q1) \<longrightarrow>
            has_default_attempts e q1 \<and> qname q1 = qn \<and>
            constructed (calls s1) = constructed (calls s) @ [q1]"
    by (auto dest: configureQueue_handle intro: default_attempts_built)
  have c: "dispatch e j p s = (s2, j2, rd) \<and> jobs (Config_data e) \<noteq> None \<longrightarrow>
            (\<exists>q2. queue j2 = Some q2 \<and> has_default_attempts e q2 \<and> qname q2 = queueName j \<and>
               constructed (calls s2) = constructed (calls s) @ [q2] \<and>
               map fst (adds (calls s2)) = map fst (adds (calls s)) @ [qid q2])"
  proof (intro impI, elim conjE)
    assume d: "dispatch e j p s = (s2, j2, rd)" and "jobs (Config_data e) \<noteq> None"
    then obtain jc where jc: "jobs (Config_data e) = Some jc"
      by auto
    obtain s1' q2 where cq: "configureQueue e (queueName j) s = (s1', Inr q2)"
      and q2: "queue j2 = Some q2"
      and ad: "adds (calls s2) =
                 adds (calls s) @
                   [(qid q2, \<lparr> job = class_name (constructor j), payload = p \<rparr>, getOptions j)]"
      using dispatch_adds [OF d jc] by blast
    obtain s1'' rq where cq': "configureQueue e (queueName j) s = (s1'', rq)"
      and cs: "constructed (calls s2) = constructed (calls s1'')"
      using dispatch_after_configureQueue [OF d] by blast
    have "constructed (calls s2) = constructed (calls s) @ [q2]"
      using configureQueue_handle [OF cq] cq cq' cs by simp
    then show "\<exists>q2. queue j2 = Some q2 \<and> has_default_attempts e q2 \<and> qname q2 = queueName j \<and>
               constructed (calls s2) = constructed (calls s) @ [q2] \<and>
               map fst (adds (calls s2)) = map fst (adds (calls s)) @ [qid q2]"
      using configureQueue_handle [OF cq] q2 ad by (auto intro: default_attempts_built)
  qed
  have i: "initQueues n e s = Some (s3, ri) \<longrightarrow>
            (\<forall>q3 \<in> snd ` set (queueMap s3).
               q3 \<in> snd ` set (queueMap s) \<or> has_default_attempts e q3)"
  proof
    assume "initQueues n e s = Some (s3, ri)"
    from sound_get_family(2) [OF this sound_from_cache [OF inv]]
    show "\<forall>q3 \<in> snd ` set (queueMap s3).
            q3 \<in> snd ` set (queueMap s) \<or> has_default_attempts e q3"
      by (auto simp: queues_sound_def intro: default_attempts_built)
  qed
  have g: "queues_get n e qn s = Some (s4, Inr (Some q4)) \<and> queueMap s = [] \<longrightarrow>
            has_default_attempts e q4"
  proof (intro impI, elim conjE)
    assume get: "queues_get n e qn s = Some (s4, Inr (Some q4))" and empty: "queueMap s = []"
    have s4: "queues_sound (snd ` set (queueMap s)) e s4"
      using sound_get_family(1) [OF get sound_from_cache [OF inv]] .
    have "q4 \<in> snd ` set (queueMap s4)"
      using queues_get_result [OF get] by (force dest: map_of_SomeD)
    then show "has_default_attempts e q4"
      using s4 empty by (auto simp: queues_sound_def intro: default_attempts_built)
  qed
  have k: "class_attempts (Job cn h) = 5"
    by (simp add: Job_def)
  show ?thesis
    using a b c i g k by blast
qed

text \<open>
  C10, witness: under a configuration whose \<open>attempts\<close> is \<open>0\<close>, the queue a dispatch
  constructs, submits to and leaves in the trace, the handle \<open>configureQueue\<close> returns,
  the handle \<open>initQueues\<close> caches and the handle a read of \<open>queues.emails\<close> returns all
  have \<open>attempts = 2\<close>.
\<close>

theorem constructed_queues_default_attempts_witness:
  "\<exists>s1 q1 s2 j2 rd s3 ri q3 s4 q4.
     reachable env_zero_attempts proc0 \<and>
     reachable env_zero_attempts s2 \<and>
     \<not> truthy (JNum 0) \<and>
     configureQueue env_zero_attempts ''emails'' proc0 = (s1, Inr q1) \<and>
     default_attempts (defaultJobOptions q1) = JNum 2 \<and>
     dispatch env_zero_attempts (new_job SendEmailJob) mail_payload proc0 = (s2, j2, rd) \<and>
     jobs (Config_data env_zero_attempts) \<noteq> None \<and>
     (\<forall>q2. queue j2 = Some q2 \<longrightarrow> default_attempts (defaultJobOptions q2) = JNum 2) \<and>
     queue j2 \<noteq> None \<and>
     (\<forall>q \<in> set (constructed (calls s2)). default_attempts (defaultJobOptions q) = JNum 2) \<and>
     constructed (calls s2) \<noteq> [] \<and>
     initQueues 2 env_zero_attempts proc0 = Some (s3, ri) \<and>
     map_of (queueMap s3) ''emails'' = Some q3 \<and>
     default_attempts (defaultJobOptions q3) = JNum 2 \<and>
     queues_get 2 env_zero_attempts ''emails'' proc0 = Some (s4, Inr (Some q4)) \<and>
     default_attempts (defaultJobOptions q4) = JNum 2 \<and>
     class_attempts (Job ''SendEmailJob'' (\<lambda>p. Resolves True)) = 5"
proof -
  have jc: "jobs (Config_data env_zero_attempts) =
      Some \<lparr> dir = ''jobs'', queues = Some [''emails''],
             options = Some \<lparr> removeOnComplete = JBool True, cfg_attempts = JNum 0,
                              debug = JUndefined \<rparr> \<rparr>"
    by (simp add: example_defs)
  have two: "\<And>q. has_default_attempts env_zero_attempts q \<Longrightarrow>
               default_attempts (defaultJobOptions q) = JNum 2"
    by (simp add: has_default_attempts_def jc options_attempts_def)
  obtain s1 q1 where cq: "configureQueue env_zero_attempts ''emails'' proc0 = (s1, Inr q1)"
    by (simp add: configureQueue_def build_defaultJobOptions_def new_Queue_def Let_def jc)
  obtain s2 j2 rd where d: "dispatch env_zero_attempts (new_job SendEmailJob) mail_payload proc0 = (s2, j2, rd)"
    by (cases "dispatch env_zero_attempts (new_job SendEmailJob) mail_payload proc0") auto
  obtain s3 ri q3 where i: "initQueues 2 env_zero_attempts proc0 = Some (s3, ri)"
    and m3: "map_of (queueMap s3) ''emails'' = Some q3"
    by (simp add: numeral_2_eq_2 init_guard_def loadJobs_def configured_queues_def endsWith_def
          queues_set_def register_def dispatch_defs example_defs)
  obtain s4 q4 where g: "queues_get 2 env_zero_attempts ''emails'' proc0 = Some (s4, Inr (Some q4))"
    by (simp add: numeral_2_eq_2 init_guard_def loadJobs_def configured_queues_def endsWith_def
          queues_set_def register_def dispatch_defs example_defs)
  have r0: "reachable env_zero_attempts proc0"
    by (rule reachable.boot)
  have r2: "reachable env_zero_attempts s2"
    using reachable.by_dispatch [OF r0 d] .
  have e0: "queueMap proc0 = []"
    by (simp add: proc0_def)
  have ne: "jobs (Config_data env_zero_attempts) \<noteq> None"
    using jc by simp
  note t0 = constructed_queues_default_attempts
              [OF r0, of _ "''emails''" s1 q1 "new_job SendEmailJob" mail_payload s2 j2 rd
                 2 s3 ri s4 q4 "''SendEmailJob''" "\<lambda>p. Resolves True"]
  have f1: "default_attempts (defaultJobOptions q1) = JNum 2"
    using t0 cq
    by (auto simp del: queues_get.simps initQueues.simps create_queues.simps intro: two)
  have f2: "\<forall>q2. queue j2 = Some q2 \<longrightarrow> default_attempts (defaultJobOptions q2) = JNum 2"
    and f2': "queue j2 \<noteq> None" and f2'': "constructed (calls s2) \<noteq> []"
    using t0 d ne
    by (auto simp del: queues_get.simps initQueues.simps create_queues.simps intro: two)
  have f3: "default_attempts (defaultJobOptions q3) = JNum 2"
  proof -
    have "q3 \<in> snd ` set (queueMap s3)"
      using m3 by (force dest: map_of_SomeD)
    then show ?thesis
      using t0 i e0
      by (auto simp del: queues_get.simps initQueues.simps create_queues.simps intro: two)
  qed
  have f4: "default_attempts (defaultJobOptions q4) = JNum 2"
    using t0 g e0
    by (auto simp del: queues_get.simps initQueues.simps create_queues.simps intro: two)
  have f5: "\<forall>q \<in> set (constructed (calls s2)). default_attempts (defaultJobOptions q) = JNum 2"
    using constructed_queues_default_attempts [OF r2] by (auto intro: two)
  have k: "class_attempts (Job ''SendEmailJob'' (\<lambda>p. Resolves True)) = 5"
    using t0 by (simp del: queues_get.simps initQueues.simps create_queues.simps)
  show ?thesis
    using r0 r2 cq f1 d ne f2 f2' f2'' f5 i m3 f3 g f4 k by auto
qed

end
